theory Spec2Isabelle
  imports Main "HOL-Library.AList"
begin

section \<open>Python values used by the account manager\<close>

text \<open>
  Python dictionaries keep insertion order, so a dictionary is an association list:
  \<open>map_of d k\<close> reads a key, \<open>AList.update k v d\<close> is \<open>d[k] = v\<close> (an existing key keeps
  its place, a new key goes to the end), \<open>map fst d\<close> is \<open>list(d.keys())\<close>.
  A TOML parser never yields a table with a repeated key.
\<close>

definition truthy :: "string option \<Rightarrow> bool" where
  \<comment> \<open>Python truth value of an optional string: \<open>None\<close> and \<open>""\<close> are false.\<close>
  "truthy s = (case s of None \<Rightarrow> False | Some x \<Rightarrow> x \<noteq> [])"

definition quoted :: "string \<Rightarrow> string" where
  \<comment> \<open>a name between single quotes, as the messages of the program show it\<close>
  "quoted s = CHR 0x27 # s @ [CHR 0x27]"

fun join_with :: "string \<Rightarrow> string list \<Rightarrow> string" where
  \<comment> \<open>\<open>sep.join(xs)\<close>\<close>
  "join_with sep [] = []"
| "join_with sep [x] = x"
| "join_with sep (x # y # ys) = x @ sep @ join_with sep (y # ys)"

definition path_isabs :: "string \<Rightarrow> bool" where
  \<comment> \<open>\<open>os.path.isabs\<close> (POSIX).\<close>
  "path_isabs p = (case p of [] \<Rightarrow> False | c # _ \<Rightarrow> c = CHR ''/'')"

definition path_join :: "string \<Rightarrow> string \<Rightarrow> string" where
  \<comment> \<open>\<open>os.path.join\<close> of two components (POSIX).\<close>
  "path_join a b =
     (if path_isabs b then b
      else if a = [] \<or> last a = CHR ''/'' then a @ b
      else a @ ''/'' @ b)"

datatype json =
    JNull
  | JBool bool
  | JInt int
  | JStr string
  | JList "json list"
  | JObj "(string \<times> json) list"

section \<open>The configuration document (config.toml)\<close>

record account_config =
  email :: "string option"
  token_path :: "string option"

record gmail_section =
  scopes :: "string list option"
  default_account :: "string option"
  default_query :: "string option"

record config_doc =
  gmail :: "gmail_section option"
  accounts :: "(string \<times> account_config) list option"

text \<open>
  Credentials as the OAuth library exposes them to this program: the access token, whether
  it is past its expiry, and the refresh token. \<open>valid\<close> is the library's property
  (a token is there and it is not expired).
\<close>

record creds =
  token :: "string option"
  expired :: bool
  refresh_token :: "string option"

definition valid :: "creds \<Rightarrow> bool" where
  "valid c = (token c \<noteq> None \<and> \<not> expired c)"

section \<open>Exceptions, outcomes, the world\<close>

datatype exn =
    FileNotFoundError
  | TOMLDecodeError
  | KeyError string
  | AccountNotFound string "string list"
    \<comment> \<open>the \<open>ValueError\<close> of \<open>GmailClient.__init__\<close>: the account name and \<open>list(accounts.keys())\<close>\<close>
  | ValueError string
  | HttpError string
  | OtherError string

text \<open>
  \<open>Raise\<close> is an exception below \<open>Exception\<close>; \<open>Exit\<close> is \<open>sys.exit(n)\<close>, that is
  \<open>SystemExit\<close>, which \<open>except Exception\<close> does not catch.
\<close>

datatype 'a outcome = Return 'a | Raise exn | Exit nat

datatype file_content = ConfigFile config_doc | TokenFile creds | OtherFile

datatype level = INFO | WARNING | ERROR

datatype event =
    Log level string
  | Print string
  | PrintErr string
  | PrintJson "nat option" json
    \<comment> \<open>\<open>print(json.dumps(result, indent=indent))\<close>\<close>
  | ConfigWritten config_doc
  | TokenWritten string creds
  | ConsentFlowRun

datatype build_result = BuildOk | BuildHttpError string | BuildOtherError exn

record label =
  label_id :: "string option"
  label_name :: "string option"
  label_type :: "string option"

record message =
  headers :: "(string \<times> string) list"
  plain_body :: string
  snippet :: "string option"

text \<open>
  The world is what the program reads and writes: the file system, the environment
  variable \<open>GMAIL_CREDENTIALS_PATH\<close>, the installation directory, the answers of the
  OAuth provider and of the Gmail service, and the trace of what the program has
  written so far (log lines, standard output, file writes).
  A provider answer \<open>Inl e\<close> means that the call raises \<open>e\<close>.
\<close>

record world =
  fs :: "string \<rightharpoonup> file_content"
  SKILL_DIR :: string
  GMAIL_CREDENTIALS_PATH :: "string option"
  refresh_answer :: "creds \<Rightarrow> exn + creds"
  consent_answer :: "exn + creds"
  build_answer :: build_result
  profile_answer :: "exn + string option"
  labels_answer :: "exn + label list"
  messages_list_answer :: "string \<Rightarrow> int \<Rightarrow> exn + string list"
  batch_get_answer :: "string list \<Rightarrow> exn + (string \<times> message) list"
  batch_modify_answer :: "string list \<Rightarrow> string list \<Rightarrow> exn + unit"
  trace :: "event list"

definition emit :: "event \<Rightarrow> world \<Rightarrow> world" where
  "emit e w = w\<lparr>trace := trace w @ [e]\<rparr>"

definition CONFIG_PATH :: "world \<Rightarrow> string" where
  "CONFIG_PATH w = path_join (SKILL_DIR w) ''config.toml''"

definition DEFAULT_CREDENTIALS_PATH :: "world \<Rightarrow> string" where
  "DEFAULT_CREDENTIALS_PATH w = path_join (SKILL_DIR w) ''credentials.json''"

definition path_exists :: "world \<Rightarrow> string \<Rightarrow> bool" where
  \<comment> \<open>\<open>os.path.exists\<close>\<close>
  "path_exists w p = (fs w p \<noteq> None)"

definition toml_load :: "world \<Rightarrow> exn + config_doc" where
  \<comment> \<open>\<open>open(CONFIG_PATH)\<close> followed by \<open>tomllib.load\<close> or \<open>tomlkit.load\<close>\<close>
  "toml_load w =
     (case fs w (CONFIG_PATH w) of
        None \<Rightarrow> Inl FileNotFoundError
      | Some (ConfigFile d) \<Rightarrow> Inr d
      | Some _ \<Rightarrow> Inl TOMLDecodeError)"

definition toml_dump :: "config_doc \<Rightarrow> world \<Rightarrow> world" where
  \<comment> \<open>\<open>open(CONFIG_PATH, "w")\<close> followed by \<open>tomlkit.dump\<close>\<close>
  "toml_dump d w = emit (ConfigWritten d) (w\<lparr>fs := (fs w)(CONFIG_PATH w \<mapsto> ConfigFile d)\<rparr>)"

fun exn_str :: "exn \<Rightarrow> string" where
  "exn_str FileNotFoundError = ''[Errno 2] No such file or directory''"
| "exn_str TOMLDecodeError = ''Invalid TOML''"
| "exn_str (KeyError k) = quoted k"
| "exn_str (AccountNotFound n ks) =
     ''Account '' @ quoted n @ '' not found in config.toml. Available accounts: ['' @
       join_with '', '' (map quoted ks) @ '']''"
| "exn_str (ValueError m) = m"
| "exn_str (HttpError m) = m"
| "exn_str (OtherError m) = m"

definition config_writes :: "event list \<Rightarrow> nat" where
  "config_writes t = length (filter (\<lambda>e. case e of ConfigWritten _ \<Rightarrow> True | _ \<Rightarrow> False) t)"

section \<open>GmailClient\<close>

definition default_config :: config_doc where
  "default_config =
     \<lparr>gmail = Some \<lparr>scopes = Some [''https://www.googleapis.com/auth/gmail.modify''],
                     default_account = Some ''default'',
                     default_query = None\<rparr>,
      accounts = Some [(''default'', \<lparr>email = None, token_path = Some ''tokens/default.json''\<rparr>)]\<rparr>"

definition load_config :: "world \<Rightarrow> config_doc outcome \<times> world" where
  \<comment> \<open>\<open>GmailClient._load_config\<close>: only \<open>FileNotFoundError\<close> is caught\<close>
  "load_config w =
     (case toml_load w of
        Inr d \<Rightarrow> (Return d, w)
      | Inl FileNotFoundError \<Rightarrow>
          (Return default_config, emit (Log WARNING ''config.toml not found, using defaults.'') w)
      | Inl e \<Rightarrow> (Raise e, w))"

record client =
  config :: config_doc
  creds_of :: "creds option"
  service :: bool
  account_email :: "string option"
  account_name :: string
  account_config :: account_config
  client_scopes :: "string list"
  credentials_path :: string
  client_token_path :: string

definition dict_accounts :: "config_doc \<Rightarrow> (string \<times> account_config) list" where
  \<comment> \<open>\<open>config.get("accounts", {})\<close>\<close>
  "dict_accounts d = (case accounts d of None \<Rightarrow> [] | Some a \<Rightarrow> a)"

definition resolve_name :: "string option \<Rightarrow> config_doc \<Rightarrow> exn + string" where
  \<comment> \<open>\<open>account or self.config["gmail"].get("default_account", "default")\<close>\<close>
  "resolve_name account cfg =
     (if truthy account then Inr (the account)
      else case gmail cfg of
             None \<Rightarrow> Inl (KeyError ''gmail'')
           | Some g \<Rightarrow> Inr (case default_account g of None \<Rightarrow> ''default'' | Some n \<Rightarrow> n))"

definition config_scopes :: "config_doc \<Rightarrow> exn + string list" where
  \<comment> \<open>\<open>self.config["gmail"]["scopes"]\<close>\<close>
  "config_scopes cfg =
     (case gmail cfg of
        None \<Rightarrow> Inl (KeyError ''gmail'')
      | Some g \<Rightarrow> (case scopes g of None \<Rightarrow> Inl (KeyError ''scopes'') | Some s \<Rightarrow> Inr s))"

definition resolve_token_path :: "world \<Rightarrow> string \<Rightarrow> account_config \<Rightarrow> string" where
  \<comment> \<open>the token path, resolved against the installation directory when relative\<close>
  "resolve_token_path w n info =
     (let tp = (case token_path info of None \<Rightarrow> ''tokens/'' @ n @ ''.json'' | Some p \<Rightarrow> p)
      in if \<not> path_isabs tp then path_join (SKILL_DIR w) tp else tp)"

definition GmailClient_init :: "string option \<Rightarrow> world \<Rightarrow> client outcome \<times> world" where
  \<comment> \<open>\<open>GmailClient.__init__\<close>\<close>
  "GmailClient_init account w0 =
     (case load_config w0 of
        (Raise e, w) \<Rightarrow> (Raise e, w)
      | (Exit n, w) \<Rightarrow> (Exit n, w)
      | (Return cfg, w) \<Rightarrow>
          (case resolve_name account cfg of
             Inl e \<Rightarrow> (Raise e, w)
           | Inr nm \<Rightarrow>
               (case map_of (dict_accounts cfg) nm of
                  None \<Rightarrow> (Raise (AccountNotFound nm (map fst (dict_accounts cfg))), w)
                | Some info \<Rightarrow>
                    (case config_scopes cfg of
                       Inl e \<Rightarrow> (Raise e, w)
                     | Inr sc \<Rightarrow>
                         (Return \<lparr>config = cfg, creds_of = None, service = False,
                                  account_email = email info,
                                  account_name = nm,
                                  account_config = info,
                                  client_scopes = sc,
                                  credentials_path =
                                    (case GMAIL_CREDENTIALS_PATH w of
                                       None \<Rightarrow> DEFAULT_CREDENTIALS_PATH w | Some p \<Rightarrow> p),
                                  client_token_path = resolve_token_path w nm info\<rparr>, w)))))"


definition save_email_to_config :: "client \<Rightarrow> string \<Rightarrow> world \<Rightarrow> world" where
  \<comment> \<open>\<open>GmailClient._save_email_to_config\<close>: a missing \<open>accounts\<close> table and a missing
      entry are created empty before the email is stored; every exception is logged\<close>
  "save_email_to_config self em w =
     (case toml_load w of
        Inl e \<Rightarrow> emit (Log WARNING (''Could not update config.toml: '' @ exn_str e)) w
      | Inr doc \<Rightarrow>
          (let accts = (case accounts doc of None \<Rightarrow> [] | Some a \<Rightarrow> a);
               info = (case map_of accts (account_name self) of
                         None \<Rightarrow> \<lparr>email = None, token_path = None\<rparr>
                       | Some i \<Rightarrow> i)
           in toml_dump
                (doc\<lparr>accounts := Some (AList.update (account_name self) (info\<lparr>email := Some em\<rparr>) accts)\<rparr>)
                w))"

definition update_account_email :: "client \<Rightarrow> world \<Rightarrow> client \<times> world" where
  \<comment> \<open>\<open>GmailClient._update_account_email\<close>\<close>
  "update_account_email self w =
     (case profile_answer w of
        Inl e \<Rightarrow> (self, emit (Log WARNING (''Could not fetch email address: '' @ exn_str e)) w)
      | Inr em \<Rightarrow>
          (if truthy em
           then (self\<lparr>account_email := em\<rparr>,
                 emit (Log INFO (''Account email updated: '' @ the em))
                   (save_email_to_config (self\<lparr>account_email := em\<rparr>) (the em) w))
           else (self, w)))"

definition load_token :: "client \<Rightarrow> world \<Rightarrow> client outcome" where
  \<comment> \<open>\<open>if os.path.exists(self.token_path): self.creds = Credentials.from_authorized_user_file(...)\<close>\<close>
  "load_token self w =
     (case fs w (client_token_path self) of
        None \<Rightarrow> Return self
      | Some (TokenFile cr) \<Rightarrow> Return (self\<lparr>creds_of := Some cr\<rparr>)
      | Some _ \<Rightarrow> Raise (ValueError ''Authorized user info was not in the expected format''))"

definition try_refresh :: "client \<Rightarrow> world \<Rightarrow> client \<times> world" where
  \<comment> \<open>\<open>if self.creds and self.creds.expired and self.creds.refresh_token: try: refresh ...\<close>\<close>
  "try_refresh self w =
     (case creds_of self of
        None \<Rightarrow> (self, w)
      | Some cr \<Rightarrow>
          (if expired cr \<and> truthy (refresh_token cr)
           then (case refresh_answer w cr of
                   Inr cr' \<Rightarrow> (self\<lparr>creds_of := Some cr'\<rparr>, w)
                 | Inl e \<Rightarrow> (self\<lparr>creds_of := None\<rparr>,
                             emit (Log ERROR (''Error refreshing token: '' @ exn_str e)) w))
           else (self, w)))"

definition interactive_consent :: "client \<Rightarrow> world \<Rightarrow> client outcome \<times> world" where
  \<comment> \<open>\<open>if not self.creds: ...\<close>: the hard stop without the client-secret file, else the
      consent flow\<close>
  "interactive_consent self w =
     (case creds_of self of
        Some _ \<Rightarrow> (Return self, w)
      | None \<Rightarrow>
          (if \<not> path_exists w (credentials_path self)
           then (Exit 1,
                 emit (Log ERROR (''See README.md in '' @ SKILL_DIR w @ '' for setup instructions.''))
                   (emit (Log ERROR ''Please download credentials.json from Google Cloud Console.'')
                      (emit (Log ERROR (''Credentials file not found at: '' @ credentials_path self)) w)))
           else (case consent_answer w of
                   Inl e \<Rightarrow> (Raise e, emit ConsentFlowRun w)
                 | Inr cr \<Rightarrow> (Return (self\<lparr>creds_of := Some cr\<rparr>), emit ConsentFlowRun w))))"

definition save_token :: "client \<Rightarrow> world \<Rightarrow> world" where
  \<comment> \<open>\<open>with open(self.token_path, "w") as token: token.write(self.creds.to_json())\<close>\<close>
  "save_token self w =
     (case creds_of self of
        None \<Rightarrow> w
      | Some cr \<Rightarrow>
          emit (TokenWritten (client_token_path self) cr)
            (w\<lparr>fs := (fs w)(client_token_path self \<mapsto> TokenFile cr)\<rparr>))"

definition build_service :: "client \<Rightarrow> world \<Rightarrow> unit outcome \<times> client \<times> world" where
  \<comment> \<open>the final \<open>try: ... except HttpError\<close> block of \<open>authenticate\<close>\<close>
  "build_service self w =
     (case build_answer w of
        BuildHttpError m \<Rightarrow>
          (Exit 1, self, emit (Log ERROR (''An error occurred building the service: '' @ m)) w)
      | BuildOtherError e \<Rightarrow> (Raise e, self, w)
      | BuildOk \<Rightarrow>
          (if \<not> truthy (account_email self)
           then (case update_account_email (self\<lparr>service := True\<rparr>) w of
                   (self', w') \<Rightarrow> (Return (), self', w'))
           else (Return (), self\<lparr>service := True\<rparr>, w)))"

definition authenticate :: "client \<Rightarrow> world \<Rightarrow> unit outcome \<times> client \<times> world" where
  \<comment> \<open>\<open>GmailClient.authenticate\<close>; creating the token directory is not modelled\<close>
  "authenticate self0 w0 =
     (case load_token self0 w0 of
        Raise e \<Rightarrow> (Raise e, self0, w0)
      | Exit n \<Rightarrow> (Exit n, self0, w0)
      | Return self1 \<Rightarrow>
          (if creds_of self1 = None \<or> \<not> valid (the (creds_of self1))
           then (case try_refresh self1 w0 of
                   (self2, w2) \<Rightarrow>
                     (case interactive_consent self2 w2 of
                        (Raise e, w3) \<Rightarrow> (Raise e, self2, w3)
                      | (Exit n, w3) \<Rightarrow> (Exit n, self2, w3)
                      | (Return self3, w3) \<Rightarrow> build_service self3 (save_token self3 w3)))
           else build_service self1 w0))"

definition get_client :: "string option \<Rightarrow> world \<Rightarrow> client outcome \<times> world" where
  \<comment> \<open>\<open>get_client\<close> of the command layer\<close>
  "get_client account w =
     (case GmailClient_init account w of
        (Raise e, w1) \<Rightarrow> (Raise e, w1)
      | (Exit n, w1) \<Rightarrow> (Exit n, w1)
      | (Return c, w1) \<Rightarrow>
          (case authenticate c w1 of
             (Raise e, _, w2) \<Rightarrow> (Raise e, w2)
           | (Exit n, _, w2) \<Rightarrow> (Exit n, w2)
           | (Return _, c', w2) \<Rightarrow> (Return c', w2)))"

section \<open>Account management functions\<close>


definition ensure_account :: "string \<Rightarrow> world \<Rightarrow> bool \<times> world" where
  "ensure_account name w =
     (case toml_load w of
        Inl e \<Rightarrow> (False, emit (Print (''Error ensuring account: '' @ exn_str e)) w)
      | Inr doc \<Rightarrow>
          (let accts = (case accounts doc of None \<Rightarrow> [] | Some a \<Rightarrow> a)
           in if name \<in> set (map fst accts) then (True, w)
              else (True,
                    emit (Print (''Account '' @ quoted name @ '' added to config.''))
                      (toml_dump
                         (doc\<lparr>accounts :=
                            Some (AList.update name
                                    \<lparr>email = None, token_path = Some (''tokens/'' @ name @ ''.json'')\<rparr>
                                    accts)\<rparr>)
                         w))))"








section \<open>The command layer, \<^verbatim>\<open>scripts/email_cli.py\<close>\<close>

definition dict_merge :: "(string \<times> json) list \<Rightarrow> (string \<times> json) list \<Rightarrow> (string \<times> json) list" where
  \<comment> \<open>\<open>{**base, **extra}\<close>: the entries of \<open>extra\<close> are stored one by one\<close>
  "dict_merge base extra = foldl (\<lambda>d (k, v). AList.update k v d) base extra"

definition output_error :: "string \<Rightarrow> string option \<Rightarrow> (string \<times> json) list" where
  \<comment> \<open>the \<open>result\<close> dictionary that \<open>output_error\<close> prints\<close>
  "output_error message account =
     (let result = [(''status'', JStr ''error''), (''message'', JStr message)]
      in if truthy account then AList.update ''account'' (JStr (the account)) result else result)"

definition output_success :: "(string \<times> json) list \<Rightarrow> string option \<Rightarrow> (string \<times> json) list" where
  \<comment> \<open>the \<open>result\<close> dictionary that \<open>output_success\<close> prints\<close>
  "output_success data account =
     (let clean_data = filter (\<lambda>(k, v). k \<noteq> ''status'') data;
          result = dict_merge [(''status'', JStr ''success'')] clean_data
      in if truthy account then AList.update ''account'' (JStr (the account)) result else result)"

definition print_error :: "string \<Rightarrow> string option \<Rightarrow> world \<Rightarrow> world" where
  \<comment> \<open>\<open>output_error\<close>: \<open>print(json.dumps(result))\<close>\<close>
  "print_error message account w = emit (PrintJson None (JObj (output_error message account))) w"

definition print_success :: "(string \<times> json) list \<Rightarrow> string option \<Rightarrow> nat option \<Rightarrow> world \<Rightarrow> world" where
  \<comment> \<open>\<open>output_success\<close>: \<open>print(json.dumps(result, indent=indent))\<close>\<close>
  "print_success data account indent w = emit (PrintJson indent (JObj (output_success data account))) w"

definition lower :: "string \<Rightarrow> string" where
  \<comment> \<open>\<open>str.lower\<close> on ASCII letters\<close>
  "lower s = map (\<lambda>c. if 65 \<le> (of_char c :: nat) \<and> (of_char c :: nat) \<le> 90
                         then char_of ((of_char c :: nat) + 32) else c) s"

definition get_header :: "(string \<times> string) list \<Rightarrow> string \<Rightarrow> string \<Rightarrow> string" where
  "get_header hs name dflt =
     (case find (\<lambda>(n, v). lower n = lower name) hs of None \<Rightarrow> dflt | Some (n, v) \<Rightarrow> v)"

definition list_labels :: "world \<Rightarrow> exn + label list" where
  \<comment> \<open>\<open>_list_labels\<close>: one call of the service, not guarded\<close>
  "list_labels w = labels_answer w"

definition resolve_label :: "world \<Rightarrow> string \<Rightarrow> exn + (string option \<times> string option \<times> string option)" where
  "resolve_label w name_or_id =
     (case list_labels w of
        Inl e \<Rightarrow> Inl e
      | Inr labels \<Rightarrow>
          (case find (\<lambda>l. label_id l = Some name_or_id) labels of
             Some l \<Rightarrow> Inr (label_id l, label_name l, label_type l)
           | None \<Rightarrow>
               (case find (\<lambda>l. lower (case label_name l of None \<Rightarrow> [] | Some n \<Rightarrow> n) = lower name_or_id)
                       labels of
                  Some l \<Rightarrow> Inr (label_id l, label_name l, label_type l)
                | None \<Rightarrow> Inr (None, None, None))))"

definition json_opt :: "string option \<Rightarrow> json" where
  "json_opt s = (case s of None \<Rightarrow> JNull | Some x \<Rightarrow> JStr x)"

definition summary_entry :: "string \<times> message \<Rightarrow> json" where
  \<comment> \<open>one element of \<open>output\<close> in \<open>cmd_summary\<close>; \<open>plain_body\<close> stands for the decoded
      text/plain part, empty when there is none\<close>
  "summary_entry e =
     (case e of (mid, m) \<Rightarrow>
        JObj [(''id'', JStr mid),
              (''subject'', JStr (get_header (headers m) ''subject'' ''No Subject'')),
              (''from'', JStr (get_header (headers m) ''from'' ''Unknown'')),
              (''date'', JStr (get_header (headers m) ''date'' [])),
              (''body'', JStr (take 2000 (if plain_body m = []
                                           then (case snippet m of None \<Rightarrow> [] | Some s \<Rightarrow> s)
                                           else plain_body m)))])"

definition cmd_summary_body :: "string \<Rightarrow> int \<Rightarrow> client \<Rightarrow> world \<Rightarrow> unit outcome \<times> world" where
  \<comment> \<open>\<open>cmd_summary\<close> after \<open>get_client\<close>: \<open>args.label\<close>, \<open>args.limit\<close>; there is no
      \<open>try\<close> in this function\<close>
  "cmd_summary_body lbl limit cl w =
     (case resolve_label w lbl of
        Inl e \<Rightarrow> (Raise e, w)
      | Inr (lid, _, _) \<Rightarrow>
          (if \<not> truthy lid
           then (Return (), print_error (''Label '' @ quoted lbl @ '' not found'') (account_email cl) w)
           else (case messages_list_answer w (the lid) limit of
                   Inl e \<Rightarrow> (Raise e, w)
                 | Inr msgs \<Rightarrow>
                     (if msgs = []
                      then (Return (),
                            emit (PrintJson None
                                    (JObj [(''emails'', JList []), (''count'', JInt 0),
                                           (''account'', json_opt (account_email cl))])) w)
                      else (case batch_get_answer w msgs of
                              Inl e \<Rightarrow> (Raise e, w)
                            | Inr batch_resp \<Rightarrow>
                                (Return (),
                                 emit (PrintJson (Some 2)
                                         (JObj [(''emails'', JList (map summary_entry batch_resp)),
                                                (''count'', JInt (int (length batch_resp))),
                                                (''account'', json_opt (account_email cl))])) w))))))"

definition cmd_summary :: "string option \<Rightarrow> string \<Rightarrow> int \<Rightarrow> world \<Rightarrow> unit outcome \<times> world" where
  \<comment> \<open>\<open>cmd_summary(args)\<close> with \<open>args.account\<close>, \<open>args.label\<close>, \<open>args.limit\<close>\<close>
  "cmd_summary account lbl limit w =
     (case get_client account w of
        (Raise e, w1) \<Rightarrow> (Raise e, w1)
      | (Exit n, w1) \<Rightarrow> (Exit n, w1)
      | (Return cl, w1) \<Rightarrow> cmd_summary_body lbl limit cl w1)"

definition cmd_archive_body :: "string list \<Rightarrow> bool \<Rightarrow> client \<Rightarrow> world \<Rightarrow> unit outcome \<times> world" where
  \<comment> \<open>\<open>cmd_archive\<close> after \<open>get_client\<close> and \<open>parse_ids\<close>: the parsed ids, \<open>args.read\<close>;
      the service call is inside \<open>try: ... except Exception\<close>\<close>
  "cmd_archive_body ids rd cl w =
     (if ids = []
      then (Return (),
            print_success [(''count'', JInt 0), (''status'', JStr ''skipped'')] (account_email cl) None w)
      else (case batch_modify_answer w ids (if rd then [''INBOX'', ''UNREAD''] else [''INBOX'']) of
              Inl e \<Rightarrow> (Return (), print_error (exn_str e) (account_email cl) w)
            | Inr _ \<Rightarrow>
                (Return (),
                 print_success
                   (if rd then [(''count'', JInt (int (length ids))), (''action'', JStr ''archive''),
                                (''marked_read'', JBool True)]
                    else [(''count'', JInt (int (length ids))), (''action'', JStr ''archive'')])
                   (account_email cl) None w)))"

definition cmd_archive :: "string option \<Rightarrow> string list \<Rightarrow> bool \<Rightarrow> world \<Rightarrow> unit outcome \<times> world" where
  \<comment> \<open>\<open>cmd_archive(args)\<close> with \<open>args.account\<close>, the ids that \<open>parse_ids(args.ids)\<close> returns, \<open>args.read\<close>\<close>
  "cmd_archive account ids rd w =
     (case get_client account w of
        (Raise e, w1) \<Rightarrow> (Raise e, w1)
      | (Exit n, w1) \<Rightarrow> (Exit n, w1)
      | (Return cl, w1) \<Rightarrow> cmd_archive_body ids rd cl w1)"

section \<open>Example installations\<close>

definition fresh_world :: world where
  \<comment> \<open>a fresh installation: no file at all, a provider that refuses everything but the
      profile request\<close>
  "fresh_world =
     \<lparr>fs = Map.empty, SKILL_DIR = ''/skill'', GMAIL_CREDENTIALS_PATH = None,
      refresh_answer = (\<lambda>c. Inl (OtherError ''invalid_grant'')),
      consent_answer = Inl (OtherError ''access_denied''),
      build_answer = BuildOk,
      profile_answer = Inr (Some ''me@example.com''),
      labels_answer = Inr [],
      messages_list_answer = (\<lambda>l n. Inr []),
      batch_get_answer = (\<lambda>ids. Inr []),
      batch_modify_answer = (\<lambda>ids ls. Inr ()),
      trace = []\<rparr>"

definition home_config :: config_doc where
  "home_config =
     \<lparr>gmail = Some \<lparr>scopes = Some [''https://www.googleapis.com/auth/gmail.modify''],
                     default_account = Some ''default'',
                     default_query = None\<rparr>,
      accounts = Some [(''default'', \<lparr>email = Some ''me@example.com'', token_path = None\<rparr>)]\<rparr>"

definition home_world :: world where
  "home_world =
     fresh_world\<lparr>fs :=
       [''/skill/config.toml'' \<mapsto> ConfigFile home_config,
        ''/skill/credentials.json'' \<mapsto> OtherFile,
        ''/skill/tokens/default.json'' \<mapsto>
           TokenFile \<lparr>token = Some ''ya29.a0'', expired = False, refresh_token = Some ''1//0g''\<rparr>]\<rparr>"

definition two_config :: config_doc where
  "two_config =
     \<lparr>gmail = Some \<lparr>scopes = Some [''https://www.googleapis.com/auth/gmail.modify''],
                     default_account = Some ''default'',
                     default_query = None\<rparr>,
      accounts = Some [(''default'', \<lparr>email = Some ''me@example.com'', token_path = None\<rparr>),
                       (''work'', \<lparr>email = None, token_path = Some ''tokens/work.json''\<rparr>)]\<rparr>"

definition office_world :: world where
  "office_world =
     fresh_world\<lparr>fs :=
       [''/skill/config.toml'' \<mapsto> ConfigFile two_config,
        ''/skill/credentials.json'' \<mapsto> OtherFile,
        ''/skill/tokens/default.json'' \<mapsto>
           TokenFile \<lparr>token = Some ''ya29.a0'', expired = False, refresh_token = Some ''1//0g''\<rparr>]\<rparr>"

definition stale_creds :: creds where
  "stale_creds = \<lparr>token = Some ''ya29.old'', expired = True, refresh_token = None\<rparr>"

definition fresh_creds :: creds where
  "fresh_creds = \<lparr>token = Some ''ya29.new'', expired = False, refresh_token = Some ''1//0n''\<rparr>"

definition stale_world :: world where
  \<comment> \<open>the token of the default account is expired and has no refresh token; the consent
      flow would succeed\<close>
  "stale_world =
     fresh_world\<lparr>fs :=
       [''/skill/config.toml'' \<mapsto> ConfigFile home_config,
        ''/skill/credentials.json'' \<mapsto> OtherFile,
        ''/skill/tokens/default.json'' \<mapsto> TokenFile stale_creds],
       consent_answer := Inr fresh_creds\<rparr>"

definition no_credentials_world :: world where
  \<comment> \<open>a configuration file, but neither a token nor the client-secret file\<close>
  "no_credentials_world = fresh_world\<lparr>fs := [''/skill/config.toml'' \<mapsto> ConfigFile home_config]\<rparr>"

definition default_client :: client where
  \<comment> \<open>what \<open>GmailClient()\<close> builds from \<open>home_config\<close>\<close>
  "default_client =
     \<lparr>config = home_config, creds_of = None, service = False,
      account_email = Some ''me@example.com'', account_name = ''default'',
      account_config = \<lparr>email = Some ''me@example.com'', token_path = None\<rparr>,
      client_scopes = [''https://www.googleapis.com/auth/gmail.modify''],
      credentials_path = ''/skill/credentials.json'',
      client_token_path = ''/skill/tokens/default.json''\<rparr>"

definition valid_creds :: creds where
  "valid_creds = \<lparr>token = Some ''ya29.a0'', expired = False, refresh_token = Some ''1//0g''\<rparr>"

definition implicit_client :: client where
  \<comment> \<open>what \<open>GmailClient()\<close> builds when there is no configuration file\<close>
  "implicit_client =
     \<lparr>config = default_config, creds_of = None, service = False,
      account_email = None, account_name = ''default'',
      account_config = \<lparr>email = None, token_path = Some ''tokens/default.json''\<rparr>,
      client_scopes = [''https://www.googleapis.com/auth/gmail.modify''],
      credentials_path = ''/skill/credentials.json'',
      client_token_path = ''/skill/tokens/default.json''\<rparr>"

definition token_only_world :: world where
  \<comment> \<open>no configuration file, but a valid token for the implicit default account\<close>
  "token_only_world =
     fresh_world\<lparr>fs := [''/skill/tokens/default.json'' \<mapsto> TokenFile valid_creds]\<rparr>"

definition work_client :: client where
  \<comment> \<open>what \<open>GmailClient("work")\<close> builds from \<open>two_config\<close>\<close>
  "work_client =
     \<lparr>config = two_config, creds_of = None, service = False,
      account_email = None, account_name = ''work'',
      account_config = \<lparr>email = None, token_path = Some ''tokens/work.json''\<rparr>,
      client_scopes = [''https://www.googleapis.com/auth/gmail.modify''],
      credentials_path = ''/skill/credentials.json'',
      client_token_path = ''/skill/tokens/work.json''\<rparr>"

definition work_world :: world where
  \<comment> \<open>the account \<open>work\<close> has a valid token and no email yet\<close>
  "work_world =
     fresh_world\<lparr>fs :=
       [''/skill/config.toml'' \<mapsto> ConfigFile two_config,
        ''/skill/credentials.json'' \<mapsto> OtherFile,
        ''/skill/tokens/work.json'' \<mapsto> TokenFile valid_creds],
       profile_answer := Inr (Some ''work@example.com'')\<rparr>"

definition quota_world :: world where
  \<comment> \<open>the installation of \<open>home_world\<close>, with a Gmail service that answers every label
      listing and every batch modification with an API error\<close>
  "quota_world =
     home_world\<lparr>labels_answer := Inl (HttpError ''rateLimitExceeded''),
                 batch_modify_answer := (\<lambda>ids ls. Inl (HttpError ''rateLimitExceeded''))\<rparr>"

section \<open>Configuration loading\<close>

lemma toml_load_emit [simp]: "toml_load (emit e w) = toml_load w"
  by (simp add: toml_load_def emit_def CONFIG_PATH_def)

lemma toml_load_missing: "fs w (CONFIG_PATH w) = None \<Longrightarrow> toml_load w = Inl FileNotFoundError"
  by (simp add: toml_load_def)

text \<open>
  C1, as the code has it. When there is no file at \<open>CONFIG_PATH\<close>, \<open>_load_config\<close> returns
  (it neither raises nor exits) the in-memory default document: its scopes are exactly the
  gmail.modify scope, its default account is \<open>default\<close>, and its accounts table holds one
  entry, \<open>default\<close>, with the token path \<open>tokens/default.json\<close> and no email. No file is
  touched, and a client for the default account is built from it.
\<close>

theorem load_config_missing_file:
  "fs w (CONFIG_PATH w) = None \<Longrightarrow>
     fst (load_config w) =
       Return \<lparr>gmail = Some \<lparr>scopes = Some [''https://www.googleapis.com/auth/gmail.modify''],
                               default_account = Some ''default'',
                               default_query = None\<rparr>,
               accounts = Some [(''default'', \<lparr>email = None, token_path = Some ''tokens/default.json''\<rparr>)]\<rparr>
     \<and> fs (snd (load_config w)) = fs w
     \<and> (\<exists>c. fst (GmailClient_init None w) = Return c \<and> account_name c = ''default''
              \<and> account_config c = \<lparr>email = None, token_path = Some ''tokens/default.json''\<rparr>)"
  by (simp add: load_config_def toml_load_missing default_config_def emit_def GmailClient_init_def
      resolve_name_def truthy_def dict_accounts_def config_scopes_def)

theorem load_config_missing_file_witness:
  "fs fresh_world (CONFIG_PATH fresh_world) = None \<and>
   fst (load_config fresh_world) =
       Return \<lparr>gmail = Some \<lparr>scopes = Some [''https://www.googleapis.com/auth/gmail.modify''],
                               default_account = Some ''default'',
                               default_query = None\<rparr>,
               accounts = Some [(''default'', \<lparr>email = None, token_path = Some ''tokens/default.json''\<rparr>)]\<rparr>"
proof -
  have h: "fs fresh_world (CONFIG_PATH fresh_world) = None"
    by (simp add: fresh_world_def)
  from load_config_missing_file [OF h] h show ?thesis by simp
qed

text \<open>
  C1 as written says that the accounts mapping of the default document is empty. On a fresh
  installation the document returned has the account \<open>default\<close> in it.
\<close>

theorem load_config_accounts_not_empty:
  "fs fresh_world (CONFIG_PATH fresh_world) = None \<and>
   fst (load_config fresh_world) = Return default_config \<and>
   map fst (dict_accounts default_config) = [''default''] \<and>
   accounts default_config \<noteq> Some [] \<and> accounts default_config \<noteq> None"
  by (simp add: fresh_world_def load_config_def toml_load_def default_config_def dict_accounts_def)



lemma load_config_Inr: "toml_load w = Inr cfg \<Longrightarrow> load_config w = (Return cfg, w)"
  by (simp add: load_config_def)

lemma toml_load_dump [simp]: "toml_load (toml_dump d w) = Inr d"
  by (simp add: toml_load_def toml_dump_def emit_def CONFIG_PATH_def)

lemma CONFIG_PATH_home [simp]: "CONFIG_PATH home_world = ''/skill/config.toml''"
  by (simp add: CONFIG_PATH_def home_world_def fresh_world_def path_join_def path_isabs_def)

lemma toml_load_home [simp]: "toml_load home_world = Inr home_config"
  by (simp add: toml_load_def) (simp add: home_world_def)

lemma CONFIG_PATH_office [simp]: "CONFIG_PATH office_world = ''/skill/config.toml''"
  by (simp add: CONFIG_PATH_def office_world_def fresh_world_def path_join_def path_isabs_def)

lemma toml_load_office [simp]: "toml_load office_world = Inr two_config"
  by (simp add: toml_load_def) (simp add: office_world_def)

section \<open>Resolving an account\<close>






section \<open>Adding an account\<close>

lemma count_key_distinct:
  "distinct (map fst al) \<Longrightarrow> k \<in> set (map fst al) \<Longrightarrow> length (filter (\<lambda>p. fst p = k) al) = 1"
proof (induction al)
  case Nil
  then show ?case by simp
next
  case (Cons p al)
  show ?case
  proof (cases "fst p = k")
    case True
    with Cons.prems have "k \<notin> fst ` set al" by auto
    then have "filter (\<lambda>p. fst p = k) al = []" by (auto simp: filter_empty_conv)
    with True show ?thesis by simp
  next
    case False
    with Cons show ?thesis by auto
  qed
qed

lemma ensure_account_present:
  "toml_load w = Inr doc \<Longrightarrow> n \<in> set (map fst (dict_accounts doc)) \<Longrightarrow> ensure_account n w = (True, w)"
  by (simp add: ensure_account_def dict_accounts_def)

lemma ensure_account_absent:
  "toml_load w = Inr doc \<Longrightarrow> n \<notin> set (map fst (dict_accounts doc)) \<Longrightarrow>
     ensure_account n w =
       (True, emit (Print (''Account '' @ quoted n @ '' added to config.''))
                (toml_dump (doc\<lparr>accounts := Some (AList.update n
                     \<lparr>email = None, token_path = Some (''tokens/'' @ n @ ''.json'')\<rparr> (dict_accounts doc))\<rparr>) w))"
  by (simp add: ensure_account_def dict_accounts_def)

text \<open>
  C5. The configuration file parses (to a document whose account names are distinct, as every
  parsed TOML document is). Then \<open>ensure_account n\<close> reports success; a second call reports
  success and changes nothing at all; the document then has exactly one entry for \<open>n\<close>;
  the \<open>gmail\<close> section and every other account are as before; when \<open>n\<close> was there already
  the first call leaves the world as it was (no field of the entry is reset), and when it was
  not, the new entry holds the token path \<open>tokens/<n>.json\<close> and no email.
\<close>

theorem ensure_account_idempotent:
  assumes "toml_load w = Inr doc" and "distinct (map fst (dict_accounts doc))"
  shows "fst (ensure_account n w) \<and>
         ensure_account n (snd (ensure_account n w)) = (True, snd (ensure_account n w)) \<and>
         (\<exists>doc'. toml_load (snd (ensure_account n w)) = Inr doc' \<and>
                 gmail doc' = gmail doc \<and>
                 distinct (map fst (dict_accounts doc')) \<and>
                 length (filter (\<lambda>p. fst p = n) (dict_accounts doc')) = 1 \<and>
                 (\<forall>k. k \<noteq> n \<longrightarrow> map_of (dict_accounts doc') k = map_of (dict_accounts doc) k) \<and>
                 (case map_of (dict_accounts doc) n of
                    Some info \<Rightarrow> snd (ensure_account n w) = w \<and> doc' = doc
                  | None \<Rightarrow> map_of (dict_accounts doc') n =
                             Some \<lparr>email = None, token_path = Some (''tokens/'' @ n @ ''.json'')\<rparr>))"
proof (cases "n \<in> set (map fst (dict_accounts doc))")
  case True
  then obtain info where "map_of (dict_accounts doc) n = Some info"
    by (metis map_of_eq_None_iff not_Some_eq set_map)
  with True assms show ?thesis
    by (simp add: ensure_account_present count_key_distinct)
next
  case False
  let ?new = "\<lparr>email = None, token_path = Some (''tokens/'' @ n @ ''.json'')\<rparr>"
  let ?doc' = "doc\<lparr>accounts := Some (AList.update n ?new (dict_accounts doc))\<rparr>"
  let ?w1 = "emit (Print (''Account '' @ quoted n @ '' added to config.'')) (toml_dump ?doc' w)"
  have first: "ensure_account n w = (True, ?w1)"
    using assms(1) False by (rule ensure_account_absent)
  have load1: "toml_load ?w1 = Inr ?doc'" by simp
  have accts: "dict_accounts ?doc' = AList.update n ?new (dict_accounts doc)"
    by (simp add: dict_accounts_def)
  have mem: "n \<in> set (map fst (dict_accounts ?doc'))"
    unfolding accts by (simp add: update_keys)
  have dist: "distinct (map fst (dict_accounts ?doc'))"
    unfolding accts using assms(2) by (rule distinct_update)
  have second: "ensure_account n ?w1 = (True, ?w1)"
    using load1 mem by (rule ensure_account_present)
  have none: "map_of (dict_accounts doc) n = None"
    using False by (simp add: map_of_eq_None_iff)
  have look: "map_of (dict_accounts ?doc') n = Some ?new"
    unfolding accts by (simp add: update_conv')
  have others: "\<forall>k. k \<noteq> n \<longrightarrow> map_of (dict_accounts ?doc') k = map_of (dict_accounts doc) k"
    unfolding accts by (simp add: update_conv')
  have cnt: "length (filter (\<lambda>p. fst p = n) (dict_accounts ?doc')) = 1"
    using dist mem by (rule count_key_distinct)
  have "toml_load ?w1 = Inr ?doc' \<and> gmail ?doc' = gmail doc \<and>
        distinct (map fst (dict_accounts ?doc')) \<and>
        length (filter (\<lambda>p. fst p = n) (dict_accounts ?doc')) = 1 \<and>
        (\<forall>k. k \<noteq> n \<longrightarrow> map_of (dict_accounts ?doc') k = map_of (dict_accounts doc) k) \<and>
        map_of (dict_accounts ?doc') n = Some ?new"
    using load1 dist cnt others look by simp
  then show ?thesis
    unfolding first using second none by (intro conjI exI [of _ ?doc']) simp_all
qed

theorem ensure_account_idempotent_witness:
  "toml_load home_world = Inr home_config \<and> distinct (map fst (dict_accounts home_config)) \<and>
   fst (ensure_account ''work'' home_world) \<and>
   ensure_account ''work'' (snd (ensure_account ''work'' home_world)) =
     (True, snd (ensure_account ''work'' home_world)) \<and>
   toml_load (snd (ensure_account ''work'' home_world)) =
     Inr (home_config\<lparr>accounts := Some
            [(''default'', \<lparr>email = Some ''me@example.com'', token_path = None\<rparr>),
             (''work'', \<lparr>email = None, token_path = Some ''tokens/work.json''\<rparr>)]\<rparr>) \<and>
   ensure_account ''default'' home_world = (True, home_world)"
proof -
  have d: "distinct (map fst (dict_accounts home_config))"
    by (simp add: home_config_def dict_accounts_def)
  have l: "toml_load (snd (ensure_account ''work'' home_world)) =
     Inr (home_config\<lparr>accounts := Some
            [(''default'', \<lparr>email = Some ''me@example.com'', token_path = None\<rparr>),
             (''work'', \<lparr>email = None, token_path = Some ''tokens/work.json''\<rparr>)]\<rparr>)"
    by (simp add: ensure_account_def) (simp add: home_config_def)
  have e: "ensure_account ''default'' home_world = (True, home_world)"
    by (simp add: ensure_account_def) (simp add: home_config_def)
  from ensure_account_idempotent [OF toml_load_home d, of "''work''"] d l e
  show ?thesis by simp
qed


section \<open>Setting the default account\<close>

lemma toml_dump_fs_other: "p \<noteq> CONFIG_PATH w \<Longrightarrow> fs (toml_dump d w) p = fs w p"
  by (simp add: toml_dump_def emit_def)





section \<open>The setup check\<close>




section \<open>Structured output\<close>

lemma dict_merge_head:
  "k0 \<notin> fst ` set extra \<Longrightarrow> dict_merge ((k0, v0) # base) extra = (k0, v0) # dict_merge base extra"
proof (induction extra arbitrary: base)
  case Nil
  then show ?case by (simp add: dict_merge_def)
next
  case (Cons p extra)
  obtain k v where p: "p = (k, v)" by (cases p)
  with Cons.prems have ne: "k0 \<noteq> k" and rest: "k0 \<notin> fst ` set extra" by auto
  have "dict_merge ((k0, v0) # base) (p # extra) = dict_merge ((k0, v0) # AList.update k v base) extra"
    using ne by (simp add: dict_merge_def p)
  also have "\<dots> = (k0, v0) # dict_merge (AList.update k v base) extra"
    using rest by (rule Cons.IH)
  also have "dict_merge (AList.update k v base) extra = dict_merge base (p # extra)"
    by (simp add: dict_merge_def p)
  finally show ?case .
qed

lemma dict_merge_keys: "fst ` set (dict_merge base extra) = fst ` set base \<union> fst ` set extra"
proof (induction extra arbitrary: base)
  case Nil
  then show ?case by (simp add: dict_merge_def)
next
  case (Cons p extra)
  have "dict_merge base (p # extra) = dict_merge (AList.update (fst p) (snd p) base) extra"
    by (simp add: dict_merge_def case_prod_beta)
  then show ?case
    by (simp add: Cons.IH dom_update)
qed

lemma clean_data_no_status: "''status'' \<notin> fst ` set (filter (\<lambda>(k, v). k \<noteq> ''status'') data)"
  by auto

lemma output_success_shape:
  "\<exists>rest. output_success data account = (''status'', JStr ''success'') # rest
          \<and> ''status'' \<notin> fst ` set rest"
proof -
  let ?clean = "filter (\<lambda>(k, v). k \<noteq> ''status'') data"
  have m: "dict_merge [(''status'', JStr ''success'')] ?clean
             = (''status'', JStr ''success'') # dict_merge [] ?clean"
    using clean_data_no_status by (rule dict_merge_head)
  have k: "''status'' \<notin> fst ` set (dict_merge [] ?clean)"
    unfolding dict_merge_keys using clean_data_no_status [of data] by simp
  show ?thesis
  proof (cases "truthy account")
    case False
    then show ?thesis using m k by (simp add: output_success_def)
  next
    case True
    have "''status'' \<notin> fst ` set (AList.update ''account'' (JStr (the account)) (dict_merge [] ?clean))"
      using k by (simp add: dom_update)
    with True m show ?thesis by (simp add: output_success_def)
  qed
qed

text \<open>
  C10. Whatever the data dictionary and the account, the dictionary that \<open>output_success\<close>
  prints starts with the pair \<open>status = success\<close> and has no other \<open>status\<close> key (one in
  the data is dropped, it does not override); the dictionary that \<open>output_error\<close> prints starts
  with \<open>status = error\<close> and has no other \<open>status\<close> key; each helper prints exactly that
  dictionary. So the status of a document printed by a helper is fixed by the helper.
\<close>

theorem output_status_fixed:
  "hd (output_success data account) = (''status'', JStr ''success'')
   \<and> map_of (output_success data account) ''status'' = Some (JStr ''success'')
   \<and> filter (\<lambda>p. fst p = ''status'') (output_success data account) = [(''status'', JStr ''success'')]
   \<and> hd (output_error message account) = (''status'', JStr ''error'')
   \<and> map_of (output_error message account) ''status'' = Some (JStr ''error'')
   \<and> filter (\<lambda>p. fst p = ''status'') (output_error message account) = [(''status'', JStr ''error'')]
   \<and> trace (print_success data account indent w) = trace w @ [PrintJson indent (JObj (output_success data account))]
   \<and> trace (print_error message account w) = trace w @ [PrintJson None (JObj (output_error message account))]"
proof -
  obtain rest where r: "output_success data account = (''status'', JStr ''success'') # rest"
    and n: "''status'' \<notin> fst ` set rest"
    using output_success_shape by blast
  have f: "filter (\<lambda>p. fst p = ''status'') rest = []"
    using n by (force simp: filter_empty_conv)
  have e: "output_error message account =
             (if truthy account
              then [(''status'', JStr ''error''), (''message'', JStr message), (''account'', JStr (the account))]
              else [(''status'', JStr ''error''), (''message'', JStr message)])"
    by (simp add: output_error_def)
  show ?thesis
    by (simp add: r f e print_success_def print_error_def emit_def)
qed

theorem output_status_fixed_witness:
  "output_success [(''count'', JInt 0), (''status'', JStr ''skipped'')] (Some ''me@example.com'')
     = [(''status'', JStr ''success''), (''count'', JInt 0), (''account'', JStr ''me@example.com'')]
   \<and> hd (output_success [(''count'', JInt 0), (''status'', JStr ''skipped'')] (Some ''me@example.com''))
       = (''status'', JStr ''success'')
   \<and> output_error ''quota exceeded'' None = [(''status'', JStr ''error''), (''message'', JStr ''quota exceeded'')]"
proof -
  have "output_success [(''count'', JInt 0), (''status'', JStr ''skipped'')] (Some ''me@example.com'')
     = [(''status'', JStr ''success''), (''count'', JInt 0), (''account'', JStr ''me@example.com'')]"
    by (simp add: output_success_def dict_merge_def truthy_def)
  moreover have "output_error ''quota exceeded'' None = [(''status'', JStr ''error''), (''message'', JStr ''quota exceeded'')]"
    by (simp add: output_error_def truthy_def)
  ultimately show ?thesis
    using output_status_fixed [of "[(''count'', JInt 0), (''status'', JStr ''skipped'')]" "Some ''me@example.com''"]
    by simp
qed


section \<open>Authentication\<close>







lemma CONFIG_PATH_nocred [simp]: "CONFIG_PATH no_credentials_world = ''/skill/config.toml''"
  by (simp add: CONFIG_PATH_def no_credentials_world_def fresh_world_def path_join_def path_isabs_def)

lemma toml_load_nocred [simp]: "toml_load no_credentials_world = Inr home_config"
  by (simp add: toml_load_def) (simp add: no_credentials_world_def)




lemma CONFIG_PATH_stale [simp]: "CONFIG_PATH stale_world = ''/skill/config.toml''"
  by (simp add: CONFIG_PATH_def stale_world_def fresh_world_def path_join_def path_isabs_def)

lemma toml_load_stale [simp]: "toml_load stale_world = Inr home_config"
  by (simp add: toml_load_def) (simp add: stale_world_def)

lemma init_stale: "GmailClient_init None stale_world = (Return default_client, stale_world)"
  by (simp add: GmailClient_init_def load_config_Inr)
     (simp add: home_config_def resolve_name_def truthy_def dict_accounts_def config_scopes_def
        default_client_def stale_world_def fresh_world_def DEFAULT_CREDENTIALS_PATH_def
        resolve_token_path_def path_join_def path_isabs_def)

text \<open>
  C2, the case that the code misses. The token of the default account is expired and has no
  refresh token; the client-secret file is there and the consent flow would return fresh
  credentials. \<open>authenticate\<close> returns normally without starting the consent flow: the client
  keeps the expired credentials, which are not valid, and the only thing done is to write
  them back to the token file.
\<close>

theorem authenticate_expired_without_refresh_token:
  "GmailClient_init None stale_world = (Return default_client, stale_world) \<and>
   fs stale_world (client_token_path default_client) = Some (TokenFile stale_creds) \<and>
   expired stale_creds \<and> \<not> truthy (refresh_token stale_creds) \<and>
   path_exists stale_world (credentials_path default_client) \<and>
   consent_answer stale_world = Inr fresh_creds \<and>
   fst (authenticate default_client stale_world) = Return () \<and>
   creds_of (fst (snd (authenticate default_client stale_world))) = Some stale_creds \<and>
   \<not> valid stale_creds \<and>
   trace (snd (snd (authenticate default_client stale_world)))
     = [TokenWritten ''/skill/tokens/default.json'' stale_creds]"
proof -
  have l: "load_token default_client stale_world = Return (default_client\<lparr>creds_of := Some stale_creds\<rparr>)"
    by (simp add: load_token_def default_client_def stale_world_def)
  have t: "try_refresh (default_client\<lparr>creds_of := Some stale_creds\<rparr>) stale_world
             = (default_client\<lparr>creds_of := Some stale_creds\<rparr>, stale_world)"
    by (simp add: try_refresh_def stale_creds_def truthy_def)
  have i: "interactive_consent (default_client\<lparr>creds_of := Some stale_creds\<rparr>) stale_world
             = (Return (default_client\<lparr>creds_of := Some stale_creds\<rparr>), stale_world)"
    by (simp add: interactive_consent_def)
  have v: "\<not> valid stale_creds" by (simp add: valid_def stale_creds_def)
  have a: "authenticate default_client stale_world =
             build_service (default_client\<lparr>creds_of := Some stale_creds\<rparr>)
               (save_token (default_client\<lparr>creds_of := Some stale_creds\<rparr>) stale_world)"
    by (simp add: authenticate_def l t i v)
  have b: "build_answer (save_token (default_client\<lparr>creds_of := Some stale_creds\<rparr>) stale_world) = BuildOk"
    by (simp add: save_token_def emit_def stale_world_def fresh_world_def)
  have e: "truthy (account_email default_client)"
    by (simp add: default_client_def truthy_def)
  have r: "authenticate default_client stale_world =
             (Return (), default_client\<lparr>creds_of := Some stale_creds, service := True\<rparr>,
              save_token (default_client\<lparr>creds_of := Some stale_creds\<rparr>) stale_world)"
    unfolding a by (simp add: build_service_def b e)
  have tr: "trace (save_token (default_client\<lparr>creds_of := Some stale_creds\<rparr>) stale_world)
              = [TokenWritten ''/skill/tokens/default.json'' stale_creds]"
    by (simp add: save_token_def emit_def default_client_def stale_world_def fresh_world_def)
  have f: "fs stale_world (client_token_path default_client) = Some (TokenFile stale_creds)"
    by (simp add: default_client_def stale_world_def)
  have p: "path_exists stale_world (credentials_path default_client)"
    by (simp add: path_exists_def default_client_def stale_world_def)
  have c: "consent_answer stale_world = Inr fresh_creds"
    by (simp add: stale_world_def)
  have x: "expired stale_creds \<and> \<not> truthy (refresh_token stale_creds)"
    by (simp add: stale_creds_def truthy_def)
  show ?thesis
    using init_stale f x p c v by (simp add: r tr)
qed

subsection \<open>What each stage of authenticate leaves unchanged\<close>

lemma emit_fields [simp]:
  "fs (emit e w) = fs w" "SKILL_DIR (emit e w) = SKILL_DIR w"
  "profile_answer (emit e w) = profile_answer w" "build_answer (emit e w) = build_answer w"
  "consent_answer (emit e w) = consent_answer w" "refresh_answer (emit e w) = refresh_answer w"
  "trace (emit e w) = trace w @ [e]" "CONFIG_PATH (emit e w) = CONFIG_PATH w"
  "path_exists (emit e w) p = path_exists w p"
  by (simp_all add: emit_def CONFIG_PATH_def path_exists_def)

lemma config_writes_Nil [simp]: "config_writes [] = 0"
  by (simp add: config_writes_def)

lemma config_writes_Cons [simp]:
  "config_writes (e # t) = (case e of ConfigWritten d \<Rightarrow> 1 | _ \<Rightarrow> 0) + config_writes t"
  by (simp add: config_writes_def split: event.splits)

lemma config_writes_append [simp]: "config_writes (t @ u) = config_writes t + config_writes u"
  by (simp add: config_writes_def)

lemma save_token_fields [simp]:
  "SKILL_DIR (save_token s w) = SKILL_DIR w" "CONFIG_PATH (save_token s w) = CONFIG_PATH w"
  "profile_answer (save_token s w) = profile_answer w" "build_answer (save_token s w) = build_answer w"
  "config_writes (trace (save_token s w)) = config_writes (trace w)"
  by (simp_all add: save_token_def CONFIG_PATH_def split: option.splits)

lemma save_token_fs:
  "creds_of s = Some cr \<Longrightarrow> fs (save_token s w) = (fs w)(client_token_path s \<mapsto> TokenFile cr)"
  by (simp add: save_token_def)

lemma try_refresh_frame:
  "try_refresh s w = (s', w') \<Longrightarrow>
     fs w' = fs w \<and> SKILL_DIR w' = SKILL_DIR w \<and> profile_answer w' = profile_answer w \<and>
     build_answer w' = build_answer w \<and> consent_answer w' = consent_answer w \<and>
     config_writes (trace w') = config_writes (trace w) \<and>
     account_email s' = account_email s \<and> account_name s' = account_name s \<and>
     client_token_path s' = client_token_path s \<and> credentials_path s' = credentials_path s"
  by (auto simp: try_refresh_def split: option.splits if_splits sum.splits)

lemma interactive_consent_frame:
  "interactive_consent s w = (r, w') \<Longrightarrow>
     fs w' = fs w \<and> SKILL_DIR w' = SKILL_DIR w \<and> profile_answer w' = profile_answer w \<and>
     build_answer w' = build_answer w \<and>
     config_writes (trace w') = config_writes (trace w) \<and>
     (\<forall>s'. r = Return s' \<longrightarrow> account_email s' = account_email s \<and> account_name s' = account_name s \<and>
         client_token_path s' = client_token_path s \<and> creds_of s' \<noteq> None)"
  by (auto simp: interactive_consent_def split: option.splits if_splits sum.splits)

lemma load_token_frame:
  "load_token s w = Return s' \<Longrightarrow>
     account_email s' = account_email s \<and> account_name s' = account_name s \<and>
     client_token_path s' = client_token_path s \<and> credentials_path s' = credentials_path s \<and>
     (\<forall>d. fs w (client_token_path s) \<noteq> Some (ConfigFile d))"
  by (auto simp: load_token_def split: option.splits file_content.splits)


lemma toml_dump_fields [simp]:
  "trace (toml_dump d w) = trace w @ [ConfigWritten d]"
  "profile_answer (toml_dump d w) = profile_answer w"
  by (simp_all add: toml_dump_def)

lemma save_email_parsed:
  "toml_load w = Inr doc \<Longrightarrow>
     save_email_to_config s em w =
       toml_dump (doc\<lparr>accounts := Some (AList.update (account_name s)
                    ((case map_of (dict_accounts doc) (account_name s) of
                        None \<Rightarrow> \<lparr>email = None, token_path = None\<rparr> | Some i \<Rightarrow> i)\<lparr>email := Some em\<rparr>)
                    (dict_accounts doc))\<rparr>) w"
  by (simp add: save_email_to_config_def dict_accounts_def Let_def)

lemma save_email_unreadable:
  "toml_load w = Inl e \<Longrightarrow>
     save_email_to_config s em w = emit (Log WARNING (''Could not update config.toml: '' @ exn_str e)) w"
  by (simp add: save_email_to_config_def)

lemma build_service_writes:
  assumes "build_service s w = (r, s', w')"
  shows "config_writes (trace w') = config_writes (trace w) +
           (if r = Return () \<and> \<not> truthy (account_email s) \<and>
               (\<exists>em. profile_answer w = Inr em \<and> truthy em) \<and> (\<exists>doc. toml_load w = Inr doc)
            then 1 else 0)"
proof (cases "toml_load w")
  case (Inl e)
  with assms show ?thesis
    by (auto simp: build_service_def update_account_email_def save_email_unreadable
        split: build_result.splits if_splits sum.splits)
next
  case (Inr doc)
  with assms show ?thesis
    by (auto simp: build_service_def update_account_email_def save_email_parsed
        split: build_result.splits if_splits sum.splits)
qed

lemma build_service_email:
  assumes "build_service s w = (Return (), s', w')" and "\<not> truthy (account_email s)"
    and "profile_answer w = Inr (Some em)" and "em \<noteq> []" and "toml_load w = Inr doc"
  shows "account_email s' = Some em \<and>
         toml_load w' =
           Inr (doc\<lparr>accounts := Some (AList.update (account_name s)
                    ((case map_of (dict_accounts doc) (account_name s) of
                        None \<Rightarrow> \<lparr>email = None, token_path = None\<rparr> | Some i \<Rightarrow> i)\<lparr>email := Some em\<rparr>)
                    (dict_accounts doc))\<rparr>)"
  using assms
  by (auto simp: build_service_def update_account_email_def save_email_parsed truthy_def
      split: build_result.splits)

lemma toml_load_after_token:
  assumes "\<forall>d. fs w p \<noteq> Some (ConfigFile d)"
    and "fs w2 = (fs w)(p \<mapsto> TokenFile cr)" and "SKILL_DIR w2 = SKILL_DIR w"
  shows "case toml_load w of Inr d \<Rightarrow> toml_load w2 = Inr d | Inl e \<Rightarrow> (\<exists>e'. toml_load w2 = Inl e')"
  using assms
  by (auto simp: toml_load_def CONFIG_PATH_def split: option.splits file_content.splits)

lemma authenticate_reduces:
  assumes "authenticate self w = (r, self', w')"
  shows "(r \<noteq> Return () \<and> config_writes (trace w') = config_writes (trace w)) \<or>
         (\<exists>s wb. build_service s wb = (r, self', w') \<and> account_email s = account_email self \<and>
                 account_name s = account_name self \<and> profile_answer wb = profile_answer w \<and>
                 config_writes (trace wb) = config_writes (trace w) \<and>
                 (case toml_load w of Inr d \<Rightarrow> toml_load wb = Inr d
                                    | Inl e \<Rightarrow> (\<exists>e'. toml_load wb = Inl e')))"
proof (cases "load_token self w")
  case (Raise e)
  with assms show ?thesis by (auto simp: authenticate_def)
next
  case (Exit n)
  with assms show ?thesis by (auto simp: authenticate_def)
next
  case (Return s1)
  note lf = load_token_frame [OF Return]
  show ?thesis
  proof (cases "creds_of s1 = None \<or> \<not> valid (the (creds_of s1))")
    case False
    with assms Return have b: "build_service s1 w = (r, self', w')"
      by (simp add: authenticate_def)
    have "case toml_load w of Inr d \<Rightarrow> toml_load w = Inr d | Inl e \<Rightarrow> (\<exists>e'. toml_load w = Inl e')"
      by (simp split: sum.splits)
    with b lf show ?thesis by blast
  next
    case True
    obtain s2 w2 where t: "try_refresh s1 w = (s2, w2)" by (cases "try_refresh s1 w")
    obtain r3 w3 where i: "interactive_consent s2 w2 = (r3, w3)" by (cases "interactive_consent s2 w2")
    note tf = try_refresh_frame [OF t]
    note cf = interactive_consent_frame [OF i]
    show ?thesis
    proof (cases r3)
      case (Raise e)
      with assms Return True t i tf cf show ?thesis by (auto simp: authenticate_def)
    next
      case (Exit n)
      with assms Return True t i tf cf show ?thesis by (auto simp: authenticate_def)
    next
      case (Return s3)
      with assms \<open>load_token self w = Return s1\<close> True t i
      have b: "build_service s3 (save_token s3 w3) = (r, self', w')"
        by (simp add: authenticate_def)
      from cf Return obtain cr where cr: "creds_of s3 = Some cr" by auto
      have p: "client_token_path s3 = client_token_path self"
        using cf Return tf lf by simp
      have f: "fs (save_token s3 w3) = (fs w)(client_token_path self \<mapsto> TokenFile cr)"
        using save_token_fs [OF cr, of w3] cf tf p by simp
      have sd: "SKILL_DIR (save_token s3 w3) = SKILL_DIR w"
        using cf tf by simp
      have tl: "case toml_load w of Inr d \<Rightarrow> toml_load (save_token s3 w3) = Inr d
                                  | Inl e \<Rightarrow> (\<exists>e'. toml_load (save_token s3 w3) = Inl e')"
        using lf f sd by (intro toml_load_after_token) auto
      have "account_email s3 = account_email self \<and> account_name s3 = account_name self \<and>
            profile_answer (save_token s3 w3) = profile_answer w \<and>
            config_writes (trace (save_token s3 w3)) = config_writes (trace w)"
        using cf Return tf lf by simp
      with b tl show ?thesis by blast
    qed
  qed
qed

text \<open>
  C3, as the code has it. For every run of \<open>authenticate\<close>:
  if the client's email is populated, no configuration write is made;
  if it is unset (absent or empty), authentication returns normally, the provider's profile
  has a non-empty address and the configuration file parses, exactly one configuration write
  is made; after it the client's email is the fetched address, the file holds the same
  document with that address stored in the account's entry (created empty when missing): the
  \<open>gmail\<close> section, every other account, the other fields of the entry and the order of the
  accounts are as before;
  if authentication does not return normally, or the profile request fails or has no
  address, or the configuration file cannot be read, no configuration write is made.
\<close>

theorem authenticate_email_write:
  assumes "authenticate self w = (r, self', w')"
  shows "(truthy (account_email self) \<longrightarrow> config_writes (trace w') = config_writes (trace w))
       \<and> (\<forall>em doc. \<not> truthy (account_email self) \<and> r = Return () \<and>
             profile_answer w = Inr (Some em) \<and> em \<noteq> [] \<and> toml_load w = Inr doc \<longrightarrow>
               config_writes (trace w') = config_writes (trace w) + 1
             \<and> account_email self' = Some em
             \<and> (\<exists>doc'. toml_load w' = Inr doc' \<and> gmail doc' = gmail doc
                  \<and> map_of (dict_accounts doc') (account_name self) =
                      Some ((case map_of (dict_accounts doc) (account_name self) of
                               None \<Rightarrow> \<lparr>email = None, token_path = None\<rparr> | Some i \<Rightarrow> i)\<lparr>email := Some em\<rparr>)
                  \<and> (\<forall>k. k \<noteq> account_name self \<longrightarrow>
                        map_of (dict_accounts doc') k = map_of (dict_accounts doc) k)
                  \<and> map fst (dict_accounts doc') =
                      (if account_name self \<in> set (map fst (dict_accounts doc))
                       then map fst (dict_accounts doc)
                       else map fst (dict_accounts doc) @ [account_name self])))
       \<and> (r \<noteq> Return () \<or> (\<forall>em. profile_answer w = Inr em \<longrightarrow> \<not> truthy em) \<or>
            (\<forall>doc. toml_load w \<noteq> Inr doc) \<longrightarrow>
              config_writes (trace w') = config_writes (trace w))"
proof -
  from authenticate_reduces [OF assms]
  show ?thesis
  proof
    assume "r \<noteq> Return () \<and> config_writes (trace w') = config_writes (trace w)"
    then show ?thesis by simp
  next
    assume "\<exists>s wb. build_service s wb = (r, self', w') \<and> account_email s = account_email self \<and>
                 account_name s = account_name self \<and> profile_answer wb = profile_answer w \<and>
                 config_writes (trace wb) = config_writes (trace w) \<and>
                 (case toml_load w of Inr d \<Rightarrow> toml_load wb = Inr d
                                    | Inl e \<Rightarrow> (\<exists>e'. toml_load wb = Inl e'))"
    then obtain s wb where b: "build_service s wb = (r, self', w')"
      and e: "account_email s = account_email self" and n: "account_name s = account_name self"
      and p: "profile_answer wb = profile_answer w"
      and c: "config_writes (trace wb) = config_writes (trace w)"
      and t: "case toml_load w of Inr d \<Rightarrow> toml_load wb = Inr d
                                | Inl e \<Rightarrow> (\<exists>e'. toml_load wb = Inl e')"
      by blast
    note bw = build_service_writes [OF b, unfolded e p c]
    have one: "truthy (account_email self) \<longrightarrow> config_writes (trace w') = config_writes (trace w)"
      using bw by simp
    have three: "r \<noteq> Return () \<or> (\<forall>em. profile_answer w = Inr em \<longrightarrow> \<not> truthy em) \<or>
            (\<forall>doc. toml_load w \<noteq> Inr doc) \<longrightarrow>
              config_writes (trace w') = config_writes (trace w)"
    proof
      assume h: "r \<noteq> Return () \<or> (\<forall>em. profile_answer w = Inr em \<longrightarrow> \<not> truthy em) \<or>
            (\<forall>doc. toml_load w \<noteq> Inr doc)"
      have "(\<forall>doc. toml_load w \<noteq> Inr doc) \<Longrightarrow> (\<forall>doc. toml_load wb \<noteq> Inr doc)"
        using t by (cases "toml_load w") auto
      with h bw show "config_writes (trace w') = config_writes (trace w)" by auto
    qed
    have two: "config_writes (trace w') = config_writes (trace w) + 1
             \<and> account_email self' = Some em
             \<and> (\<exists>doc'. toml_load w' = Inr doc' \<and> gmail doc' = gmail doc
                  \<and> map_of (dict_accounts doc') (account_name self) =
                      Some ((case map_of (dict_accounts doc) (account_name self) of
                               None \<Rightarrow> \<lparr>email = None, token_path = None\<rparr> | Some i \<Rightarrow> i)\<lparr>email := Some em\<rparr>)
                  \<and> (\<forall>k. k \<noteq> account_name self \<longrightarrow>
                        map_of (dict_accounts doc') k = map_of (dict_accounts doc) k)
                  \<and> map fst (dict_accounts doc') =
                      (if account_name self \<in> set (map fst (dict_accounts doc))
                       then map fst (dict_accounts doc)
                       else map fst (dict_accounts doc) @ [account_name self]))"
      if h: "\<not> truthy (account_email self) \<and> r = Return () \<and>
             profile_answer w = Inr (Some em) \<and> em \<noteq> [] \<and> toml_load w = Inr doc" for em doc
    proof -
      from h t have tb: "toml_load wb = Inr doc" by simp
      from h have tr: "truthy (Some em)" by (simp add: truthy_def)
      have cnt: "config_writes (trace w') = config_writes (trace w) + 1"
        using bw h tb tr p by auto
      let ?entry = "(case map_of (dict_accounts doc) (account_name self) of
                       None \<Rightarrow> \<lparr>email = None, token_path = None\<rparr> | Some i \<Rightarrow> i)\<lparr>email := Some em\<rparr>"
      let ?doc' = "doc\<lparr>accounts := Some (AList.update (account_name self) ?entry (dict_accounts doc))\<rparr>"
      from h b have b': "build_service s wb = (Return (), self', w')" by simp
      from h e have ne: "\<not> truthy (account_email s)" by simp
      from h p have pb: "profile_answer wb = Inr (Some em)" by simp
      from h have em: "em \<noteq> []" by simp
      from build_service_email [OF b' ne pb em tb]
      have ae: "account_email self' = Some em" and tl: "toml_load w' = Inr ?doc'"
        by (simp_all add: n)
      have d: "dict_accounts ?doc' = AList.update (account_name self) ?entry (dict_accounts doc)"
        by (simp add: dict_accounts_def)
      have "gmail ?doc' = gmail doc
            \<and> map_of (dict_accounts ?doc') (account_name self) = Some ?entry
            \<and> (\<forall>k. k \<noteq> account_name self \<longrightarrow>
                        map_of (dict_accounts ?doc') k = map_of (dict_accounts doc) k)
            \<and> map fst (dict_accounts ?doc') =
                      (if account_name self \<in> set (map fst (dict_accounts doc))
                       then map fst (dict_accounts doc)
                       else map fst (dict_accounts doc) @ [account_name self])"
        unfolding d by (simp add: update_conv' update_keys)
      with cnt ae tl show ?thesis by blast
    qed
    from one two three show ?thesis by blast
  qed
qed


lemma authenticate_valid_token:
  "creds_of s = None \<Longrightarrow> fs w (client_token_path s) = Some (TokenFile cr) \<Longrightarrow> valid cr \<Longrightarrow>
     authenticate s w = build_service (s\<lparr>creds_of := Some cr\<rparr>) w"
  by (simp add: authenticate_def load_token_def)

lemma init_token_only:
  "GmailClient_init None token_only_world =
     (Return implicit_client, emit (Log WARNING ''config.toml not found, using defaults.'') token_only_world)"
proof -
  have "toml_load token_only_world = Inl FileNotFoundError"
    by (rule toml_load_missing)
       (simp add: token_only_world_def CONFIG_PATH_def fresh_world_def path_join_def path_isabs_def)
  then have l: "load_config token_only_world =
                  (Return default_config, emit (Log WARNING ''config.toml not found, using defaults.'') token_only_world)"
    by (simp add: load_config_def)
  show ?thesis
    by (simp add: GmailClient_init_def l)
       (simp add: default_config_def resolve_name_def truthy_def dict_accounts_def config_scopes_def
          implicit_client_def token_only_world_def fresh_world_def DEFAULT_CREDENTIALS_PATH_def
          resolve_token_path_def path_join_def path_isabs_def emit_def)
qed

text \<open>
  C3 as written says that authenticating an account whose cached email is unset makes exactly
  one configuration write. Without a configuration file the client of the implicit account
  \<open>default\<close> has no email; with a valid token its authentication succeeds and the address
  is fetched, but the write-back cannot read the file and only logs a warning: no
  configuration write is made.
\<close>

theorem authenticate_default_without_config_file:
  "GmailClient_init None token_only_world =
     (Return implicit_client, emit (Log WARNING ''config.toml not found, using defaults.'') token_only_world) \<and>
   \<not> truthy (account_email implicit_client) \<and>
   fst (authenticate implicit_client
          (emit (Log WARNING ''config.toml not found, using defaults.'') token_only_world)) = Return () \<and>
   account_email (fst (snd (authenticate implicit_client
          (emit (Log WARNING ''config.toml not found, using defaults.'') token_only_world))))
     = Some ''me@example.com'' \<and>
   config_writes (trace (snd (snd (authenticate implicit_client
          (emit (Log WARNING ''config.toml not found, using defaults.'') token_only_world))))) = 0"
proof -
  let ?w = "emit (Log WARNING ''config.toml not found, using defaults.'') token_only_world"
  have f: "fs ?w (client_token_path implicit_client) = Some (TokenFile valid_creds)"
    by (simp add: implicit_client_def token_only_world_def)
  have v: "valid valid_creds" by (simp add: valid_def valid_creds_def)
  have n: "creds_of implicit_client = None" by (simp add: implicit_client_def)
  have a: "authenticate implicit_client ?w = build_service (implicit_client\<lparr>creds_of := Some valid_creds\<rparr>) ?w"
    using n f v by (rule authenticate_valid_token)
  have e: "\<not> truthy (account_email implicit_client)"
    by (simp add: implicit_client_def truthy_def)
  have t: "toml_load ?w = Inl FileNotFoundError"
    by (simp add: toml_load_missing token_only_world_def CONFIG_PATH_def fresh_world_def path_join_def path_isabs_def)
  have p: "profile_answer token_only_world = Inr (Some ''me@example.com'')"
    "build_answer token_only_world = BuildOk"
    by (simp_all add: token_only_world_def fresh_world_def)
  have tm: "truthy (Some ''me@example.com'')" by (simp add: truthy_def)
  have tr: "trace token_only_world = []"
    by (simp add: token_only_world_def fresh_world_def)
  have b: "build_service (implicit_client\<lparr>creds_of := Some valid_creds\<rparr>) ?w =
             (Return (),
              implicit_client\<lparr>creds_of := Some valid_creds, service := True,
                               account_email := Some ''me@example.com''\<rparr>,
              emit (Log INFO (''Account email updated: '' @ ''me@example.com''))
                (emit (Log WARNING (''Could not update config.toml: '' @ exn_str FileNotFoundError)) ?w))"
    by (simp add: build_service_def p update_account_email_def e tm
        save_email_unreadable [OF t])
  show ?thesis
    using init_token_only e by (simp add: a b tr)
qed

lemma CONFIG_PATH_work [simp]: "CONFIG_PATH work_world = ''/skill/config.toml''"
  by (simp add: CONFIG_PATH_def work_world_def fresh_world_def path_join_def path_isabs_def)

lemma toml_load_work [simp]: "toml_load work_world = Inr two_config"
  by (simp add: toml_load_def) (simp add: work_world_def)

lemma init_work: "GmailClient_init (Some ''work'') work_world = (Return work_client, work_world)"
  by (simp add: GmailClient_init_def load_config_Inr)
     (simp add: two_config_def resolve_name_def truthy_def dict_accounts_def config_scopes_def
        work_client_def work_world_def fresh_world_def DEFAULT_CREDENTIALS_PATH_def
        resolve_token_path_def path_join_def path_isabs_def)

theorem authenticate_email_write_witness:
  "GmailClient_init (Some ''work'') work_world = (Return work_client, work_world) \<and>
   \<not> truthy (account_email work_client) \<and>
   fst (authenticate work_client work_world) = Return () \<and>
   profile_answer work_world = Inr (Some ''work@example.com'') \<and>
   toml_load work_world = Inr two_config \<and>
   config_writes (trace work_world) = 0 \<and>
   config_writes (trace (snd (snd (authenticate work_client work_world)))) = 1 \<and>
   account_email (fst (snd (authenticate work_client work_world))) = Some ''work@example.com''"
proof -
  have f: "fs work_world (client_token_path work_client) = Some (TokenFile valid_creds)"
    by (simp add: work_client_def work_world_def)
  have v: "valid valid_creds" by (simp add: valid_def valid_creds_def)
  have n: "creds_of work_client = None" by (simp add: work_client_def)
  have a: "authenticate work_client work_world = build_service (work_client\<lparr>creds_of := Some valid_creds\<rparr>) work_world"
    using n f v by (rule authenticate_valid_token)
  have e: "\<not> truthy (account_email work_client)"
    by (simp add: work_client_def truthy_def)
  have p: "profile_answer work_world = Inr (Some ''work@example.com'')" "build_answer work_world = BuildOk"
    by (simp_all add: work_world_def fresh_world_def)
  have tm: "truthy (Some ''work@example.com'')" by (simp add: truthy_def)
  have r: "fst (authenticate work_client work_world) = Return ()"
    by (simp add: a build_service_def p update_account_email_def e tm)
  have z: "config_writes (trace work_world) = 0"
    by (simp add: work_world_def fresh_world_def)
  have c: "authenticate work_client work_world =
             (Return (), fst (snd (authenticate work_client work_world)),
              snd (snd (authenticate work_client work_world)))"
    using r by (metis prod.collapse)
  from authenticate_email_write [OF c] e p(1) z init_work r
  show ?thesis by simp
qed


subsection \<open>Expired tokens that can be refreshed\<close>

text \<open>
  The two cases of an expired token that do behave as the state machine says: a successful
  refresh keeps the refreshed credentials and overwrites the token file with them, without
  the consent flow; a failed refresh goes through the consent flow, whose credentials are
  kept and written.
\<close>

lemma build_service_keeps:
  assumes "build_service s w = (r, s', w')"
  shows "creds_of s' = creds_of s
       \<and> (\<forall>p x. fs w p = Some (TokenFile x) \<longrightarrow> fs w' p = Some (TokenFile x))
       \<and> (ConsentFlowRun \<in> set (trace w') \<longrightarrow> ConsentFlowRun \<in> set (trace w))"
proof (cases "toml_load w")
  case (Inl e)
  with assms show ?thesis
    by (auto simp: build_service_def update_account_email_def save_email_unreadable
        split: build_result.splits if_splits sum.splits)
next
  case (Inr doc)
  then have c: "fs w (CONFIG_PATH w) = Some (ConfigFile doc)"
    by (auto simp: toml_load_def split: option.splits file_content.splits)
  have k: "fs w p = Some (TokenFile x) \<Longrightarrow> fs (toml_dump d w) p = Some (TokenFile x)" for p x d
    using c by (cases "p = CONFIG_PATH w") (simp_all add: toml_dump_fs_other)
  from assms Inr show ?thesis
    by (auto simp: build_service_def update_account_email_def save_email_parsed k
        split: build_result.splits if_splits sum.splits)
qed

lemma authenticate_refresh_success:
  assumes "creds_of self = None" and "fs w (client_token_path self) = Some (TokenFile cr)"
    and "expired cr" and "truthy (refresh_token cr)" and "refresh_answer w cr = Inr cr'"
  shows "\<exists>r self' w'. authenticate self w = (r, self', w') \<and> creds_of self' = Some cr'
           \<and> fs w' (client_token_path self) = Some (TokenFile cr')
           \<and> (ConsentFlowRun \<in> set (trace w') \<longrightarrow> ConsentFlowRun \<in> set (trace w))"
proof -
  let ?s3 = "self\<lparr>creds_of := Some cr'\<rparr>"
  have l: "load_token self w = Return (self\<lparr>creds_of := Some cr\<rparr>)"
    using assms(2) by (simp add: load_token_def)
  have v: "\<not> valid cr" using assms(3) by (simp add: valid_def)
  have t: "try_refresh (self\<lparr>creds_of := Some cr\<rparr>) w = (?s3, w)"
    using assms(3,4,5) by (simp add: try_refresh_def)
  have i: "interactive_consent ?s3 w = (Return ?s3, w)"
    by (simp add: interactive_consent_def)
  have a: "authenticate self w = build_service ?s3 (save_token ?s3 w)"
    by (simp add: authenticate_def l v t i)
  obtain r self' w' where b: "build_service ?s3 (save_token ?s3 w) = (r, self', w')"
    by (cases "build_service ?s3 (save_token ?s3 w)")
  have f: "fs (save_token ?s3 w) (client_token_path self) = Some (TokenFile cr')"
    by (simp add: save_token_def)
  have c: "ConsentFlowRun \<in> set (trace (save_token ?s3 w)) \<longrightarrow> ConsentFlowRun \<in> set (trace w)"
    by (simp add: save_token_def)
  from build_service_keeps [OF b] f c
  have "creds_of self' = Some cr' \<and> fs w' (client_token_path self) = Some (TokenFile cr')
        \<and> (ConsentFlowRun \<in> set (trace w') \<longrightarrow> ConsentFlowRun \<in> set (trace w))"
    by simp
  with a b show ?thesis by simp
qed

lemma authenticate_refresh_failure:
  assumes "creds_of self = None" and "fs w (client_token_path self) = Some (TokenFile cr)"
    and "expired cr" and "truthy (refresh_token cr)" and "refresh_answer w cr = Inl e"
    and "path_exists w (credentials_path self)" and "consent_answer w = Inr cr2"
  shows "\<exists>r self' w'. authenticate self w = (r, self', w') \<and> creds_of self' = Some cr2
           \<and> fs w' (client_token_path self) = Some (TokenFile cr2)
           \<and> ConsentFlowRun \<in> set (trace w')"
proof -
  let ?s2 = "self\<lparr>creds_of := None\<rparr>"
  let ?w2 = "emit (Log ERROR (''Error refreshing token: '' @ exn_str e)) w"
  let ?s3 = "self\<lparr>creds_of := Some cr2\<rparr>"
  let ?w3 = "emit ConsentFlowRun ?w2"
  have l: "load_token self w = Return (self\<lparr>creds_of := Some cr\<rparr>)"
    using assms(2) by (simp add: load_token_def)
  have v: "\<not> valid cr" using assms(3) by (simp add: valid_def)
  have t: "try_refresh (self\<lparr>creds_of := Some cr\<rparr>) w = (?s2, ?w2)"
    using assms(3,4,5) by (simp add: try_refresh_def)
  have i: "interactive_consent ?s2 ?w2 = (Return ?s3, ?w3)"
    using assms(6,7) by (simp add: interactive_consent_def)
  have a: "authenticate self w = build_service ?s3 (save_token ?s3 ?w3)"
    unfolding authenticate_def l using v t i by simp
  obtain r self' w' where b: "build_service ?s3 (save_token ?s3 ?w3) = (r, self', w')"
    by (cases "build_service ?s3 (save_token ?s3 ?w3)")
  have f: "fs (save_token ?s3 ?w3) (client_token_path self) = Some (TokenFile cr2)"
    by (simp add: save_token_def)
  have c: "ConsentFlowRun \<in> set (trace (save_token ?s3 ?w3))"
    by (simp add: save_token_def)
  have g: "set (trace (save_token ?s3 ?w3)) \<subseteq> set (trace w')"
    using b by (auto simp: build_service_def update_account_email_def save_email_to_config_def
        toml_dump_def Let_def split: build_result.splits if_splits sum.splits)
  from build_service_keeps [OF b] f c g
  have "creds_of self' = Some cr2 \<and> fs w' (client_token_path self) = Some (TokenFile cr2)
        \<and> ConsentFlowRun \<in> set (trace w')"
    by auto
  with a b show ?thesis by simp
qed


section \<open>Provider errors in the command layer\<close>

lemma cmd_summary_labels_error:
  "get_client account w = (Return cl, w1) \<Longrightarrow> labels_answer w1 = Inl e \<Longrightarrow>
     cmd_summary account lbl limit w = (Raise e, w1)"
  by (simp add: cmd_summary_def cmd_summary_body_def resolve_label_def list_labels_def)

lemma cmd_summary_list_error:
  "get_client account w = (Return cl, w1) \<Longrightarrow> resolve_label w1 lbl = Inr (Some lid, n, t) \<Longrightarrow>
   lid \<noteq> [] \<Longrightarrow> messages_list_answer w1 lid limit = Inl e \<Longrightarrow>
     cmd_summary account lbl limit w = (Raise e, w1)"
  by (simp add: cmd_summary_def cmd_summary_body_def truthy_def)

lemma cmd_archive_error_caught:
  "get_client account w = (Return cl, w1) \<Longrightarrow> ids \<noteq> [] \<Longrightarrow>
   batch_modify_answer w1 ids (if rd then [''INBOX'', ''UNREAD''] else [''INBOX'']) = Inl e \<Longrightarrow>
     cmd_archive account ids rd w = (Return (), print_error (exn_str e) (account_email cl) w1)"
  by (simp add: cmd_archive_def cmd_archive_body_def)

lemma get_client_quota:
  "get_client None quota_world =
     (Return (default_client\<lparr>creds_of := Some valid_creds, service := True\<rparr>), quota_world)"
proof -
  have c: "CONFIG_PATH quota_world = ''/skill/config.toml''"
    by (simp add: CONFIG_PATH_def quota_world_def home_world_def fresh_world_def path_join_def path_isabs_def)
  have t: "toml_load quota_world = Inr home_config"
    by (simp add: toml_load_def c) (simp add: quota_world_def home_world_def)
  have i: "GmailClient_init None quota_world = (Return default_client, quota_world)"
    by (simp add: GmailClient_init_def load_config_Inr [OF t])
       (simp add: home_config_def resolve_name_def truthy_def dict_accounts_def config_scopes_def
          default_client_def quota_world_def home_world_def fresh_world_def DEFAULT_CREDENTIALS_PATH_def
          resolve_token_path_def path_join_def path_isabs_def)
  have f: "fs quota_world (client_token_path default_client) = Some (TokenFile valid_creds)"
    by (simp add: default_client_def quota_world_def home_world_def valid_creds_def)
  have v: "valid valid_creds" by (simp add: valid_def valid_creds_def)
  have n: "creds_of default_client = None" by (simp add: default_client_def)
  have a: "authenticate default_client quota_world =
             build_service (default_client\<lparr>creds_of := Some valid_creds\<rparr>) quota_world"
    using n f v by (rule authenticate_valid_token)
  have e: "truthy (account_email default_client)"
    by (simp add: default_client_def truthy_def)
  have b: "build_answer quota_world = BuildOk"
    by (simp add: quota_world_def home_world_def fresh_world_def)
  show ?thesis
    by (simp add: get_client_def i a build_service_def b e)
qed

text \<open>
  C9, a command that does not catch. The default account is authenticated and the Gmail
  service answers the label listing with an API error. \<open>cmd_summary\<close> ends with that error
  raised and nothing printed, while \<open>cmd_archive\<close>, whose service call is inside
  \<open>try ... except Exception\<close>, returns normally after printing the error document with
  \<open>status\<close>, \<open>message\<close> and \<open>account\<close>.
\<close>

theorem cmd_summary_provider_error_uncaught:
  "labels_answer quota_world = Inl (HttpError ''rateLimitExceeded'') \<and>
   get_client None quota_world =
     (Return (default_client\<lparr>creds_of := Some valid_creds, service := True\<rparr>), quota_world) \<and>
   cmd_summary None ''Receipts'' 10 quota_world = (Raise (HttpError ''rateLimitExceeded''), quota_world) \<and>
   trace quota_world = [] \<and>
   fst (cmd_archive None [''18c2f0a1''] False quota_world) = Return () \<and>
   trace (snd (cmd_archive None [''18c2f0a1''] False quota_world)) =
     [PrintJson None (JObj [(''status'', JStr ''error''), (''message'', JStr ''rateLimitExceeded''),
                            (''account'', JStr ''me@example.com'')])]"
proof -
  have l: "labels_answer quota_world = Inl (HttpError ''rateLimitExceeded'')"
    by (simp add: quota_world_def)
  have m: "batch_modify_answer quota_world [''18c2f0a1''] (if False then [''INBOX'', ''UNREAD''] else [''INBOX''])
             = Inl (HttpError ''rateLimitExceeded'')"
    by (simp add: quota_world_def)
  have t: "trace quota_world = []"
    by (simp add: quota_world_def home_world_def fresh_world_def)
  have s: "cmd_summary None ''Receipts'' 10 quota_world = (Raise (HttpError ''rateLimitExceeded''), quota_world)"
    using get_client_quota l by (rule cmd_summary_labels_error)
  have a: "cmd_archive None [''18c2f0a1''] False quota_world =
             (Return (), print_error (exn_str (HttpError ''rateLimitExceeded''))
                           (account_email (default_client\<lparr>creds_of := Some valid_creds, service := True\<rparr>))
                           quota_world)"
    using get_client_quota _ m by (rule cmd_archive_error_caught) simp
  show ?thesis
    using l get_client_quota s t
    by (simp add: a print_error_def output_error_def default_client_def truthy_def)
qed


end
